theory Spec2Isabelle
  imports Main "HOL-Library.Sublist"
begin

section \<open>The USFM chapter generator of uw-web\<close>

text \<open>
  A shallow embedding of \<^verbatim>\<open>uwGenerateUsfm\<close> (the second document of
  \<^verbatim>\<open>src/tools/unfolding-word/uw-grab-bibles.js\<close>): the tag dispatch of
  \<^verbatim>\<open>uwObject.generate\<close>, the four block flags with their close functions, the
  chapter store and the two post-passes.

  JavaScript strings are modelled as \<^typ>\<open>string\<close>, a list of code units in the
  range 0..255. The modules the generator requires but the repository does not hold
  (the USFM line parser, the book table, the formatter, the verse indexer) and the
  built-ins \<^verbatim>\<open>parseInt\<close>, \<^verbatim>\<open>Number.toString\<close> and
  \<^verbatim>\<open>toUpperCase\<close> are parameters, collected in the record \<open>ext\<close>.
\<close>

subsection \<open>Data\<close>

text \<open>One entry of \<^verbatim>\<open>usfmParser.parseLine(line)\<close>:
  \<^verbatim>\<open>{ key: 'c', number: '', text: '1' }\<close>.\<close>

record tag =
  t_key :: string
  t_number :: string
  t_text :: string

text \<open>
  \<^verbatim>\<open>currentChapter.html\<close> is a string that only grows by \<^verbatim>\<open>+=\<close>. It is
  kept as the sequence of the pieces appended, each piece carrying its string and, when
  it is the opening or the closing of one of the four flagged blocks, the kind of that
  block. The JavaScript string is \<open>html_str\<close>, the concatenation of the pieces.
\<close>

datatype block = TextBlock | VerseBlock | FootnoteBlock | ListItemBlock

datatype fragment = Plain string | Opening block string | Closing block string

fun frag_str :: "fragment \<Rightarrow> string" where
  "frag_str (Plain t) = t"
| "frag_str (Opening b t) = t"
| "frag_str (Closing b t) = t"

definition html_str :: "fragment list \<Rightarrow> string" where
  "html_str frs = concat (map frag_str frs)"

text \<open>\<^verbatim>\<open>previd\<close> and \<^verbatim>\<open>nextid\<close> of a chapter record: absent until
  \<^verbatim>\<open>addChapterNavigation\<close> runs, then \<^verbatim>\<open>null\<close> or a chapter id.\<close>

datatype navid = Undefined | Null | ChapterId string

text \<open>The object \<^verbatim>\<open>closeChapter\<close> pushes on \<^verbatim>\<open>bibleData.chapterData\<close>.\<close>

record chapterRecord =
  cr_id :: string
  cr_title :: string
  cr_html :: "fragment list"
  previd :: navid
  nextid :: navid

text \<open>
  What \<^verbatim>\<open>bibleDataParser.getBookInfoByUsfmCode\<close> returns, as far as the generator
  reads it: \<^verbatim>\<open>dbsCode\<close>, \<^verbatim>\<open>name\<close> (as it prints in a string concatenation) and
  \<^verbatim>\<open>names.eng[0]\<close>.
\<close>

record bookInfo =
  dbsCode :: string
  bi_name :: string
  names_eng0 :: string

text \<open>The \<^verbatim>\<open>info\<close> object of \<^verbatim>\<open>generate\<close>: \<^verbatim>\<open>lang\<close> is read, the
  other fields are written at the end of the run. An absent \<^verbatim>\<open>dbsCode\<close>
  (\<^verbatim>\<open>undefined\<close>) is \<open>None\<close>.\<close>

record info =
  lang :: string
  itype :: string
  divisions :: "string option list"
  divisionNames :: "string list"
  divisionAbbreviations :: "string list"
  sections :: "string list"

text \<open>
  The collaborators and built-ins. \<open>bd_getBookInfoByUsfmCode\<close> gives \<open>None\<close> when the
  table has no usable entry (the lookup gives \<^verbatim>\<open>null\<close>, or an object without
  \<^verbatim>\<open>names.eng[0]\<close>): the \<^verbatim>\<open>id\<close> case then throws a TypeError.
  \<open>js_parseInt\<close> gives \<open>None\<close> for \<^verbatim>\<open>NaN\<close>; \<open>bf_formatVerseCode\<close> gives \<open>None\<close>
  for \<^verbatim>\<open>null\<close>.
\<close>

record ext =
  usfm_parseLine :: "string \<Rightarrow> tag list"
  bd_getBookInfoByUsfmCode :: "string \<Rightarrow> bookInfo option"
  bf_formatChapterCode :: "string option \<Rightarrow> int option \<Rightarrow> string"
  bf_formatVerseCode :: "string option \<Rightarrow> int option \<Rightarrow> string \<Rightarrow> string option"
  bf_openVerse :: "string option \<Rightarrow> string option \<Rightarrow> string"
  bf_closeVerse :: string
  bf_openChapter :: "info \<Rightarrow> chapterRecord \<Rightarrow> string"
  bf_closeChapter :: string
  js_parseInt :: "string \<Rightarrow> int option"
  js_numToString :: "int option \<Rightarrow> string"
  js_toUpperCase :: "string \<Rightarrow> string"

text \<open>The three accumulators local to one file of the run.\<close>

record bookCtx =
  bk_name :: string
  bk_abbreviation :: string
  parsedInfo :: "bookInfo option"

record chapterAcc =
  header :: string
  html :: "fragment list"
  ch_id :: string
  ch_number :: "int option"
  title :: string

record verseAcc =
  v_id :: "string option"
  v_number :: string
  v_text :: string

text \<open>
  The state of the module. The first five fields are the variables of the module
  closure (the four flags and \<^verbatim>\<open>uwObject.unparsedTags\<close>); \<open>chapterData\<close>,
  \<open>indexData\<close> and \<open>aboutHtml\<close> are \<^verbatim>\<open>bibleData\<close> (its
  \<^verbatim>\<open>indexLemmaData\<close> is created empty and never touched); the four lists are the
  locals of \<^verbatim>\<open>generate\<close>; the rest are the locals of the callback run on each
  file. \<open>indexData\<close> is the index as the sequence of the calls
  \<^verbatim>\<open>verseIndexer.indexVerse(id, text, bibleData.indexData, info.lang)\<close> made so far.
\<close>

record state =
  textBlockOpen :: bool
  verseBlockOpen :: bool
  footnoteBlockOpen :: bool
  listItemBlockOpen :: bool
  unparsedTags :: "string list"
  chapterData :: "chapterRecord list"
  indexData :: "(string \<times> string \<times> string) list"
  aboutHtml :: string
  bookCodes :: "string option list"
  bookNames :: "string list"
  bookAbbreviations :: "string list"
  chapterCodes :: "string list"
  currentBook :: bookCtx
  currentChapter :: chapterAcc
  currentVerse :: verseAcc
  noteNumber :: nat

datatype error = TypeError

text \<open>How a piece of the run ends: normally, or by a throw, with the state of the module at
  the throw (the locals of the callback, which the state also holds, are dead by then).\<close>

datatype outcome = Done state | Threw error state

text \<open>The state with which a piece of the run ends.\<close>

fun state_of :: "outcome \<Rightarrow> state" where
  "state_of (Done s) = s"
| "state_of (Threw e s) = s"

subsection \<open>String helpers\<close>

definition htmlBreakingElement :: string where
  "htmlBreakingElement = [CHR 0x0A]"

text \<open>The code units below 256 that the regular expression \<^verbatim>\<open>\s\<close> and
  \<^verbatim>\<open>trim\<close> take for white space.\<close>

definition is_space :: "char \<Rightarrow> bool" where
  "is_space c = (c \<in> set [CHR 0x09, CHR 0x0A, CHR 0x0B, CHR 0x0C, CHR 0x0D, CHR 0x20, CHR 0xA0])"

definition js_trim :: "string \<Rightarrow> string" where
  "js_trim t = rev (dropWhile is_space (rev (dropWhile is_space t)))"

text \<open>\<^verbatim>\<open>line.replace(/\s/g, '').length\<close> as a condition.\<close>

definition has_text :: "string \<Rightarrow> bool" where
  "has_text line = (filter (\<lambda>c. \<not> is_space c) line \<noteq> [])"

text \<open>\<^verbatim>\<open>content.split('\n')\<close>.\<close>

fun split_on :: "char \<Rightarrow> string \<Rightarrow> string list" where
  "split_on c [] = [[]]"
| "split_on c (x # xs) =
     (if x = c then [] # split_on c xs
      else (case split_on c xs of
              [] \<Rightarrow> [[x]]
            | l # ls \<Rightarrow> (x # l) # ls))"

text \<open>\<^verbatim>\<open>filename.indexOf('.usfm') == -1\<close> is \<open>\<not> contains ''.usfm'' filename\<close>.\<close>

fun contains :: "string \<Rightarrow> string \<Rightarrow> bool" where
  "contains p [] = (p = [])"
| "contains p (x # xs) = (prefix p (x # xs) \<or> contains p xs)"

fun stripPlural :: "string \<Rightarrow> string" where
  "stripPlural t = (if t \<noteq> [] \<and> last t = CHR ''s'' then butlast t else t)"

text \<open>\<^verbatim>\<open>text.indexOf(c)\<close>: the first position of \<open>c\<close>, or -1.\<close>

fun indexOf :: "char \<Rightarrow> string \<Rightarrow> int" where
  "indexOf c [] = -1"
| "indexOf c (x # xs) =
     (if x = c then 0 else (let i = indexOf c xs in if i < 0 then -1 else i + 1))"

text \<open>\<^verbatim>\<open>text.substring(n)\<close> for \<open>0 \<le> n\<close>.\<close>

definition substring_from :: "string \<Rightarrow> int \<Rightarrow> string" where
  "substring_from t n = drop (nat n) t"

definition stripCaller :: "string \<Rightarrow> string" where
  "stripCaller t = (let firstSpace = indexOf (CHR '' '') t in substring_from t (firstSpace + 1))"

definition abbreviate :: "string \<Rightarrow> string" where
  "abbreviate t = take 3 (filter (\<lambda>c. \<not> is_space c) t)"

subsection \<open>The close functions\<close>

text \<open>Each returns the pieces of the string it returns (none for \<^verbatim>\<open>''\<close>) and the
  state with its flag cleared.\<close>

definition closeTextBlock :: "state \<Rightarrow> fragment list \<times> state" where
  "closeTextBlock s =
     (if textBlockOpen s
      then ([Closing TextBlock (''</div>'' @ htmlBreakingElement)], s\<lparr>textBlockOpen := False\<rparr>)
      else ([], s))"

definition closeVerseBlock :: "ext \<Rightarrow> state \<Rightarrow> fragment list \<times> state" where
  "closeVerseBlock env s =
     (if verseBlockOpen s
      then ([Closing VerseBlock (bf_closeVerse env)], s\<lparr>verseBlockOpen := False\<rparr>)
      else ([], s))"

definition closeFootnoteBlock :: "state \<Rightarrow> fragment list \<times> state" where
  "closeFootnoteBlock s =
     (if footnoteBlockOpen s
      then ([Closing FootnoteBlock ''</span></span>''], s\<lparr>footnoteBlockOpen := False\<rparr>)
      else ([], s))"

definition closeListItemBlock :: "state \<Rightarrow> fragment list \<times> state" where
  "closeListItemBlock s =
     (if listItemBlockOpen s
      then ([Closing ListItemBlock (''</div>'' @ htmlBreakingElement)], s\<lparr>listItemBlockOpen := False\<rparr>)
      else ([], s))"

subsection \<open>Appending to the chapter and storing it\<close>

definition add_html :: "fragment list \<Rightarrow> state \<Rightarrow> state" where
  "add_html frs s = s\<lparr>currentChapter := (currentChapter s)\<lparr>html := html (currentChapter s) @ frs\<rparr>\<rparr>"

text \<open>\<^verbatim>\<open>currentChapter.html += f()\<close> for a close function \<open>f\<close>.\<close>

definition emit :: "(state \<Rightarrow> fragment list \<times> state) \<Rightarrow> state \<Rightarrow> state" where
  "emit f s = (case f s of (frs, s') \<Rightarrow> add_html frs s')"

text \<open>
  \<^verbatim>\<open>closeChapter(chapter)\<close> copies three fields into a new object and pushes it. Its
  other branch, a throw when \<^verbatim>\<open>bibleData\<close> has no \<^verbatim>\<open>chapterData\<close>, cannot be
  taken: \<^verbatim>\<open>generate\<close> assigns \<^verbatim>\<open>bibleData\<close> with that property first.
\<close>

definition closeChapter :: "chapterAcc \<Rightarrow> state \<Rightarrow> state" where
  "closeChapter chapter s =
     s\<lparr>chapterData := chapterData s @
        [\<lparr>cr_id = ch_id chapter, cr_title = title chapter, cr_html = html chapter,
          previd = Undefined, nextid = Undefined\<rparr>]\<rparr>"

text \<open>The three assignments that follow both calls of \<^verbatim>\<open>closeChapter\<close>.\<close>

definition reset_chapter :: "state \<Rightarrow> state" where
  "reset_chapter s = s\<lparr>currentChapter := (currentChapter s)\<lparr>title := [], ch_id := [], html := []\<rparr>\<rparr>"

definition getChapterHeader :: "ext \<Rightarrow> chapterAcc \<Rightarrow> string" where
  \<open>getChapterHeader env chapter =
     (let psalmChapter = ''PS'' @ js_numToString env (ch_number chapter);
          content = (if ch_id chapter = psalmChapter then stripPlural (header chapter) @ '' '' else []);
          content = content @ js_numToString env (ch_number chapter)
      in ''<div class="c">'' @ content @ ''</div>'' @ htmlBreakingElement)\<close>

text \<open>\<^verbatim>\<open>currentBook.parsedInfo.dbsCode\<close> and \<^verbatim>\<open>currentBook.parsedInfo.name\<close>;
  before the \<^verbatim>\<open>id\<close> tag \<^verbatim>\<open>parsedInfo\<close> is \<^verbatim>\<open>{}\<close> and both are
  \<^verbatim>\<open>undefined\<close>.\<close>

definition book_dbsCode :: "state \<Rightarrow> string option" where
  "book_dbsCode s = map_option dbsCode (parsedInfo (currentBook s))"

definition book_name_str :: "state \<Rightarrow> string" where
  "book_name_str s = (case parsedInfo (currentBook s) of None \<Rightarrow> ''undefined'' | Some b \<Rightarrow> bi_name b)"

text \<open>
  The condition and the call written twice in the source, in the \<^verbatim>\<open>v\<close> case and in
  the clean-up: \<^verbatim>\<open>if (createIndex && currentVerse.text !== '' && currentVerse.id !== null)
  verseIndexer.indexVerse(...)\<close>.
\<close>

definition index_pending_verse :: "bool \<Rightarrow> string \<Rightarrow> state \<Rightarrow> state" where
  "index_pending_verse createIndex lng s =
     (case v_id (currentVerse s) of
        None \<Rightarrow> s
      | Some i \<Rightarrow>
          if createIndex \<and> v_text (currentVerse s) \<noteq> []
          then s\<lparr>indexData := indexData s @ [(i, v_text (currentVerse s), lng)]\<rparr>
          else s)"

subsection \<open>The cases of the switch\<close>

definition close_verse_list_text :: "ext \<Rightarrow> state \<Rightarrow> state" where
  "close_verse_list_text env s =
     (let s = emit (closeVerseBlock env) s;
          s = emit closeListItemBlock s
      in emit closeTextBlock s)"

definition case_b :: "ext \<Rightarrow> state \<Rightarrow> state" where
  \<open>case_b env s =
     add_html [Plain (''<div class="b">&nbsp;</div>'' @ htmlBreakingElement)] (close_verse_list_text env s)\<close>

text \<open>\<^verbatim>\<open>currentChapter.number > 1\<close>; false for \<^verbatim>\<open>NaN\<close>.\<close>

definition gt1 :: "int option \<Rightarrow> bool" where
  "gt1 n = (case n of None \<Rightarrow> False | Some k \<Rightarrow> 1 < k)"

definition case_c :: "ext \<Rightarrow> state \<Rightarrow> tag \<Rightarrow> state" where
  "case_c env s r =
     (let s = close_verse_list_text env s;
          s = s\<lparr>currentChapter := (currentChapter s)\<lparr>ch_number := js_parseInt env (t_number r)\<rparr>\<rparr>;
          s = (if gt1 (ch_number (currentChapter s))
               then reset_chapter (closeChapter (currentChapter s) s)
               else s);
          s = s\<lparr>currentChapter := (currentChapter s)
                \<lparr>title := book_name_str s @ '' '' @ js_numToString env (ch_number (currentChapter s))\<rparr>\<rparr>;
          s = s\<lparr>currentChapter := (currentChapter s)
                \<lparr>ch_id := bf_formatChapterCode env (book_dbsCode s) (ch_number (currentChapter s))\<rparr>\<rparr>;
          s = s\<lparr>chapterCodes := chapterCodes s @ [ch_id (currentChapter s)]\<rparr>
      in add_html [Plain (getChapterHeader env (currentChapter s))] s)"

definition case_h :: "state \<Rightarrow> tag \<Rightarrow> state" where
  "case_h s r = s\<lparr>currentChapter := (currentChapter s)\<lparr>header := js_trim (t_text r)\<rparr>\<rparr>"

definition case_id :: "ext \<Rightarrow> state \<Rightarrow> tag \<Rightarrow> outcome" where
  "case_id env s r =
     (let bookId = js_toUpperCase env (js_trim (takeWhile (\<lambda>c. c \<noteq> CHR '' '') (t_text r)))
      in case bd_getBookInfoByUsfmCode env bookId of
           None \<Rightarrow> Threw TypeError s
         | Some b \<Rightarrow>
             Done (s\<lparr>currentBook :=
               \<lparr>bk_name = names_eng0 b, bk_abbreviation = abbreviate (names_eng0 b),
                parsedInfo = Some b\<rparr>\<rparr>))"

definition case_toc_name :: "state \<Rightarrow> tag \<Rightarrow> state" where
  "case_toc_name s r =
     (if js_trim (t_text r) \<noteq> []
      then s\<lparr>currentBook := (currentBook s)\<lparr>bk_name := js_trim (t_text r)\<rparr>\<rparr>
      else s)"

definition case_toc3 :: "state \<Rightarrow> tag \<Rightarrow> state" where
  "case_toc3 s r =
     (if js_trim (t_text r) \<noteq> []
      then s\<lparr>currentBook := (currentBook s)\<lparr>bk_abbreviation := js_trim (t_text r)\<rparr>\<rparr>
      else s)"

definition heading_keys :: "string list" where
  "heading_keys = [''is'', ''is1'', ''ip'', ''ili'', ''ili1'', ''ili2'', ''mt'', ''mt1'', ''mt2'',
     ''mt3'', ''ms'', ''d'', ''sp'', ''sr'', ''s1'', ''s2'', ''r'']"

definition case_heading :: "ext \<Rightarrow> state \<Rightarrow> tag \<Rightarrow> state" where
  \<open>case_heading env s r =
     add_html [Plain (''<div class="'' @ t_key r @ ''">'' @ t_text r @ ''</div>'' @ htmlBreakingElement)]
       (close_verse_list_text env s)\<close>

definition case_v :: "ext \<Rightarrow> bool \<Rightarrow> string \<Rightarrow> state \<Rightarrow> tag \<Rightarrow> state" where
  "case_v env createIndex lng s r =
     (let s = emit (closeVerseBlock env) s;
          s = index_pending_verse createIndex lng s;
          s = s\<lparr>currentVerse := (currentVerse s)\<lparr>v_text := t_text r\<rparr>\<rparr>;
          s = s\<lparr>currentVerse := (currentVerse s)\<lparr>v_number := t_number r\<rparr>\<rparr>;
          s = s\<lparr>currentVerse := (currentVerse s)
                \<lparr>v_id := bf_formatVerseCode env (book_dbsCode s) (ch_number (currentChapter s))
                           (v_number (currentVerse s))\<rparr>\<rparr>;
          s = add_html [Opening VerseBlock
                          (bf_openVerse env (v_id (currentVerse s)) (Some (v_number (currentVerse s)))),
                        Plain (v_text (currentVerse s))] s
      in s\<lparr>verseBlockOpen := True\<rparr>)"

definition paragraph_keys :: "string list" where
  "paragraph_keys = [''cp'', ''m'', ''mi'', ''nb'', ''p'', ''pi'', ''q'', ''q1'', ''q2'', ''q3'']"

definition case_paragraph :: "ext \<Rightarrow> state \<Rightarrow> tag \<Rightarrow> state" where
  \<open>case_paragraph env s r =
     (let s = emit (closeVerseBlock env) s;
          s = emit closeTextBlock s;
          s = add_html [Opening TextBlock (''<div class="'' @ t_key r @ ''">'' @ htmlBreakingElement)] s;
          s = (if t_text r \<noteq> []
               then add_html [Opening VerseBlock (bf_openVerse env (v_id (currentVerse s)) None),
                              Plain (t_text r),
                              Closing VerseBlock (bf_closeVerse env)] s
               else s)
      in s\<lparr>textBlockOpen := True\<rparr>)\<close>

definition list_item_keys :: "string list" where
  "list_item_keys = [''li'', ''li1'', ''li2'', ''li3'']"

definition case_list_item :: "ext \<Rightarrow> state \<Rightarrow> tag \<Rightarrow> state" where
  \<open>case_list_item env s r =
     (let s = emit (closeVerseBlock env) s;
          s = emit closeListItemBlock s;
          s = add_html [Opening ListItemBlock (''<div class="'' @ t_key r @ ''">''), Plain (t_text r)] s
      in s\<lparr>listItemBlockOpen := True\<rparr>)\<close>

text \<open>The opening of a note: everything the \<^verbatim>\<open>x\<close>/\<^verbatim>\<open>f\<close> case appends before
  the text.\<close>

definition note_open :: "ext \<Rightarrow> nat \<Rightarrow> string" where
  \<open>note_open env n =
     ''<span class="note" id="note-'' @ js_numToString env (Some (int n)) @
     ''"><a class="key" href="#footnote-'' @ js_numToString env (Some (int n)) @ ''">'' @
     js_numToString env (Some (int n)) @ ''</a><span class="text">''\<close>

definition case_note :: "ext \<Rightarrow> state \<Rightarrow> tag \<Rightarrow> state" where
  "case_note env s r =
     (let s = add_html [Opening FootnoteBlock (note_open env (noteNumber s)),
                        Plain (stripCaller (t_text r))] s;
          s = s\<lparr>noteNumber := noteNumber s + 1\<rparr>
      in s\<lparr>footnoteBlockOpen := True\<rparr>)"

definition case_default :: "state \<Rightarrow> tag \<Rightarrow> state" where
  "case_default s r =
     (if t_key r \<noteq> [] \<and> t_key r \<notin> set (unparsedTags s)
      then s\<lparr>unparsedTags := unparsedTags s @ [t_key r]\<rparr>
      else s)"

text \<open>The switch on \<^verbatim>\<open>usfmData.key\<close>, in the order of the source.\<close>

definition dispatch :: "ext \<Rightarrow> bool \<Rightarrow> string \<Rightarrow> state \<Rightarrow> tag \<Rightarrow> outcome" where
  \<open>dispatch env createIndex lng s r =
     (let k = t_key r in
      if k = ''b'' then Done (case_b env s)
      else if k = ''c'' then Done (case_c env s r)
      else if k = ''h'' then Done (case_h s r)
      else if k = ''ide'' then Done s
      else if k = ''id'' then case_id env s r
      else if k = ''toc1'' then Done (case_toc_name s r)
      else if k = ''toc2'' then Done (case_toc_name s r)
      else if k = ''toc3'' then Done (case_toc3 s r)
      else if k \<in> set heading_keys then Done (case_heading env s r)
      else if k = ''v'' then Done (case_v env createIndex lng s r)
      else if k \<in> set paragraph_keys then Done (case_paragraph env s r)
      else if k \<in> set list_item_keys then Done (case_list_item env s r)
      else if k = ''x'' \<or> k = ''f'' then Done (case_note env s r)
      else if k = ''fqa'' then Done (add_html [Plain (''<em>'' @ t_text r @ ''</em>'')] s)
      else if k = ''ft'' then Done (add_html [Plain (t_text r)] s)
      else if k = ''x*'' \<or> k = ''f*'' then Done (emit closeFootnoteBlock s)
      else if k = ''wj'' then Done (add_html [Plain (''<span class="wj woj">'' @ t_text r)] s)
      else if k = ''wj*'' then Done (add_html [Plain ''</span>''] s)
      else if k = ''qs'' then Done (add_html [Plain (''<span class="qs">'' @ t_text r)] s)
      else if k = ''qs*'' then Done (add_html [Plain ''</span>''] s)
      else if k = ''nd'' then Done (add_html [Plain (''<span class="nog">'' @ t_text r)] s)
      else if k = ''nd*'' then Done (add_html [Plain ''</span>''] s)
      else Done (case_default s r))\<close>

subsection \<open>The loops of generate\<close>

text \<open>The inner loop, over the tags of one line. A throw leaves the loops.\<close>

fun process_tags :: "ext \<Rightarrow> bool \<Rightarrow> string \<Rightarrow> state \<Rightarrow> tag list \<Rightarrow> outcome" where
  "process_tags env createIndex lng s [] = Done s"
| "process_tags env createIndex lng s (r # rs) =
     (case dispatch env createIndex lng s r of
        Done s' \<Rightarrow> process_tags env createIndex lng s' rs
      | Threw e s' \<Rightarrow> Threw e s')"

text \<open>A line for which the parser gives no tag: \<^verbatim>\<open>currentChapter.html += ' '+line\<close>
  when the line has a character that is not white space.\<close>

definition untagged_line :: "state \<Rightarrow> string \<Rightarrow> state" where
  "untagged_line s line = (if has_text line then add_html [Plain ('' '' @ line)] s else s)"

text \<open>The outer loop, over the lines of one file.\<close>

fun process_lines :: "ext \<Rightarrow> bool \<Rightarrow> string \<Rightarrow> state \<Rightarrow> string list \<Rightarrow> outcome" where
  "process_lines env createIndex lng s [] = Done s"
| "process_lines env createIndex lng s (line # lines) =
     (let usfmLineData = usfm_parseLine env line in
      if length usfmLineData = 0
      then process_lines env createIndex lng (untagged_line s line) lines
      else (case process_tags env createIndex lng s usfmLineData of
              Done s' \<Rightarrow> process_lines env createIndex lng s' lines
            | Threw e s' \<Rightarrow> Threw e s'))"

text \<open>The variables set at the top of the callback, once for each file. The number
  \<^verbatim>\<open>0\<close> of \<^verbatim>\<open>currentVerse.number\<close> is never read before a \<^verbatim>\<open>v\<close> tag
  overwrites it with a string.\<close>

definition begin_file :: "state \<Rightarrow> state" where
  "begin_file s =
     s\<lparr>currentBook := \<lparr>bk_name = [], bk_abbreviation = [], parsedInfo = None\<rparr>,
       currentChapter := \<lparr>header = [], html = [], ch_id = [], ch_number = Some 0, title = []\<rparr>,
       currentVerse := \<lparr>v_id = Some [], v_number = ''0'', v_text = []\<rparr>,
       noteNumber := 1\<rparr>"

text \<open>The clean-up after the last line of a file.\<close>

definition end_file :: "ext \<Rightarrow> bool \<Rightarrow> string \<Rightarrow> state \<Rightarrow> state" where
  "end_file env createIndex lng s =
     (let s = emit closeFootnoteBlock s;
          s = emit (closeVerseBlock env) s;
          s = index_pending_verse createIndex lng s;
          s = emit closeListItemBlock s;
          s = emit closeTextBlock s;
          s = reset_chapter (closeChapter (currentChapter s) s);
          s = s\<lparr>bookCodes := bookCodes s @ [book_dbsCode s]\<rparr>;
          s = s\<lparr>bookNames := bookNames s @ [bk_name (currentBook s)]\<rparr>
      in s\<lparr>bookAbbreviations := bookAbbreviations s @ [bk_abbreviation (currentBook s)]\<rparr>)"

text \<open>The callback of \<^verbatim>\<open>usfmFiles.forEach\<close>. A directory is the list of its file
  names, each with its content.\<close>

definition process_file :: "ext \<Rightarrow> bool \<Rightarrow> string \<Rightarrow> state \<Rightarrow> string \<times> string \<Rightarrow> outcome" where
  "process_file env createIndex lng s f =
     (if \<not> contains ''.usfm'' (fst f) then Done s
      else (case process_lines env createIndex lng (begin_file s) (split_on (CHR 0x0A) (snd f)) of
              Done s' \<Rightarrow> Done (end_file env createIndex lng s')
            | Threw e s' \<Rightarrow> Threw e s'))"

fun process_files :: "ext \<Rightarrow> bool \<Rightarrow> string \<Rightarrow> state \<Rightarrow> (string \<times> string) list \<Rightarrow> outcome" where
  "process_files env createIndex lng s [] = Done s"
| "process_files env createIndex lng s (f # fs) =
     (case process_file env createIndex lng s f of
        Done s' \<Rightarrow> process_files env createIndex lng s' fs
      | Threw e s' \<Rightarrow> Threw e s')"

subsection \<open>The post-passes\<close>

text \<open>The loop of \<^verbatim>\<open>addChapterNavigation\<close>, from index \<open>i\<close>, with
  \<open>il\<close> the length read once before the loop. The record after the last is read only
  when \<open>i\<close> is not \<open>il - 1\<close>.\<close>

function nav_loop :: "nat \<Rightarrow> nat \<Rightarrow> chapterRecord list \<Rightarrow> chapterRecord list" where
  "nav_loop i il cd =
     (if i < il
      then nav_loop (i + 1) il
             (cd[i := (cd ! i)
                \<lparr>previd := (if i = 0 then Null else ChapterId (cr_id (cd ! (i - 1)))),
                 nextid := (if i = il - 1 then Null else ChapterId (cr_id (cd ! (i + 1))))\<rparr>])
      else cd)"
  by pat_completeness auto
termination
  by (relation "measure (\<lambda>(i, il, cd). il - i)") auto

definition addChapterNavigation :: "chapterRecord list \<Rightarrow> chapterRecord list" where
  "addChapterNavigation cd = nav_loop 0 (length cd) cd"

text \<open>The loop of \<^verbatim>\<open>wrapChapterHtmlElements(info)\<close>.\<close>

function wrap_loop :: "ext \<Rightarrow> info \<Rightarrow> nat \<Rightarrow> nat \<Rightarrow> chapterRecord list \<Rightarrow> chapterRecord list" where
  "wrap_loop env nfo i il cd =
     (if i < il
      then wrap_loop env nfo (i + 1) il
             (cd[i := (cd ! i)
                \<lparr>cr_html := [Plain (bf_openChapter env nfo (cd ! i))] @ cr_html (cd ! i) @
                            [Plain (bf_closeChapter env)]\<rparr>])
      else cd)"
  by pat_completeness auto
termination
  by (relation "measure (\<lambda>(env, nfo, i, il, cd). il - i)") auto

definition wrapChapterHtmlElements :: "ext \<Rightarrow> info \<Rightarrow> chapterRecord list \<Rightarrow> chapterRecord list" where
  "wrapChapterHtmlElements env nfo cd = wrap_loop env nfo 0 (length cd) cd"

subsection \<open>generate\<close>

definition getAboutContent :: "(string \<times> string) list \<Rightarrow> string" where
  "getAboutContent dir = (case map_of dir ''about.html'' of Some c \<Rightarrow> c | None \<Rightarrow> [])"

text \<open>
  The assignments of \<^verbatim>\<open>generate\<close> before its loop: a new \<^verbatim>\<open>bibleData\<close> and
  four empty lists. The flags and \<^verbatim>\<open>unparsedTags\<close> are not assigned. The locals of
  the callback do not exist before the first file; the state, which has fields for them,
  gives them here the values that every file starts with.
\<close>

definition begin_generate :: "(string \<times> string) list \<Rightarrow> state \<Rightarrow> state" where
  "begin_generate dir s =
     begin_file
       (s\<lparr>chapterData := [], indexData := [], aboutHtml := getAboutContent dir,
          bookCodes := [], bookNames := [], bookAbbreviations := [], chapterCodes := []\<rparr>)"

definition finish_info :: "info \<Rightarrow> state \<Rightarrow> info" where
  "finish_info nfo s =
     nfo\<lparr>itype := ''bible'', divisions := bookCodes s, divisionNames := bookNames s,
         divisionAbbreviations := bookAbbreviations s, sections := chapterCodes s\<rparr>"

text \<open>\<^verbatim>\<open>addChapterNavigation(); wrapChapterHtmlElements(info);\<close>
  (\<^verbatim>\<open>outputFinalComments\<close> only prints).\<close>

definition postprocess :: "ext \<Rightarrow> info \<Rightarrow> chapterRecord list \<Rightarrow> chapterRecord list" where
  "postprocess env nfo cd = wrapChapterHtmlElements env nfo (addChapterNavigation cd)"

text \<open>
  \<^verbatim>\<open>uwObject.generate(_inputBasePath, info, createIndex, startProgress, updateProgress)\<close>
  run in the module state \<open>s\<close>, on the directory \<open>dir\<close>. It gives how the call ends, with
  the module state it leaves, and \<^verbatim>\<open>info\<close> as the call leaves it. The object returned
  is \<^verbatim>\<open>bibleData\<close>: the fields \<open>chapterData\<close>, \<open>indexData\<close> and \<open>aboutHtml\<close> of the
  state. Of the two callbacks, \<^verbatim>\<open>startProgress\<close> is called once, before the loop, and
  \<^verbatim>\<open>updateProgress\<close> never; neither is part of the model.
\<close>

definition generate :: "ext \<Rightarrow> (string \<times> string) list \<Rightarrow> info \<Rightarrow> bool \<Rightarrow> state \<Rightarrow> outcome \<times> info" where
  "generate env dir nfo createIndex s =
     (case process_files env createIndex (lang nfo) (begin_generate dir s) dir of
        Threw e s' \<Rightarrow> (Threw e s', nfo)
      | Done s' \<Rightarrow>
          (let nfo' = finish_info nfo s'
           in (Done (s'\<lparr>chapterData := postprocess env nfo' (chapterData s')\<rparr>), nfo')))"

text \<open>The module as \<^verbatim>\<open>new uwGenerateUsfm()\<close> leaves it; the fields assigned by
  \<^verbatim>\<open>generate\<close> before they are read are given empty values.\<close>

definition module_init :: state where
  "module_init =
     \<lparr>textBlockOpen = False, verseBlockOpen = False, footnoteBlockOpen = False,
      listItemBlockOpen = False, unparsedTags = [], chapterData = [], indexData = [],
      aboutHtml = [], bookCodes = [], bookNames = [], bookAbbreviations = [], chapterCodes = [],
      currentBook = \<lparr>bk_name = [], bk_abbreviation = [], parsedInfo = None\<rparr>,
      currentChapter = \<lparr>header = [], html = [], ch_id = [], ch_number = Some 0, title = []\<rparr>,
      currentVerse = \<lparr>v_id = Some [], v_number = ''0'', v_text = []\<rparr>,
      noteNumber = 1\<rparr>"

subsection \<open>Predicates of the properties\<close>

text \<open>Every record names its neighbours: the navigation chain over a chapter list.\<close>

definition linked :: "chapterRecord list \<Rightarrow> bool" where
  "linked cd =
     (\<forall>i < length cd.
        previd (cd ! i) = (if i = 0 then Null else ChapterId (cr_id (cd ! (i - 1)))) \<and>
        nextid (cd ! i) = (if i = length cd - 1 then Null else ChapterId (cr_id (cd ! (i + 1)))))"


text \<open>An opening of kind \<open>k\<close> is among the pieces \<open>frs\<close> and no closing of kind \<open>k\<close>
  comes after it, whichever opening that closing answers: the latest piece of kind \<open>k\<close>
  is an opening. A closing is not paired with one opening here; \<open>unanswered\<close> below does
  the pairing.\<close>

definition open_unclosed :: "block \<Rightarrow> fragment list \<Rightarrow> bool" where
  "open_unclosed k frs =
     (\<exists>pre t post. frs = pre @ Opening k t # post \<and> (\<forall>t'. Closing k t' \<notin> set post))"








text \<open>The closing pieces of the clean-up at the end of a file, in the order the source
  appends them: note, verse, list item, text.\<close>

definition cleanup_closes :: "ext \<Rightarrow> state \<Rightarrow> fragment list" where
  "cleanup_closes env s =
     (if footnoteBlockOpen s then [Closing FootnoteBlock ''</span></span>''] else []) @
     (if verseBlockOpen s then [Closing VerseBlock (bf_closeVerse env)] else []) @
     (if listItemBlockOpen s then [Closing ListItemBlock (''</div>'' @ htmlBreakingElement)] else []) @
     (if textBlockOpen s then [Closing TextBlock (''</div>'' @ htmlBreakingElement)] else [])"









text \<open>No piece of \<open>frs\<close> closes a note.\<close>

definition no_note_close :: "fragment list \<Rightarrow> bool" where
  "no_note_close frs = (\<forall>t. Closing FootnoteBlock t \<notin> set frs)"


subsection \<open>A sample of the collaborators\<close>

text \<open>
  One concrete choice of the parameters, to run the model on examples. The sample parser
  reads a line that starts with a backslash as one tag: the key up to the first space,
  then, for the keys \<^verbatim>\<open>c\<close> and \<^verbatim>\<open>v\<close>, the number up to the next space, then
  the text; any other line has no tag. The sample book table knows \<^verbatim>\<open>GEN\<close> only,
  and the sample \<open>js_toUpperCase\<close> leaves its argument as it is (the examples write
  their book codes in capitals).
\<close>

definition after_space :: "string \<Rightarrow> string" where
  "after_space t = drop 1 (dropWhile (\<lambda>c. c \<noteq> CHR '' '') t)"

definition before_space :: "string \<Rightarrow> string" where
  "before_space t = takeWhile (\<lambda>c. c \<noteq> CHR '' '') t"

definition sample_parseLine :: "string \<Rightarrow> tag list" where
  "sample_parseLine line =
     (case line of
        [] \<Rightarrow> []
      | c # rest \<Rightarrow>
          if c \<noteq> CHR 0x5C then []
          else (let k = before_space rest; body = after_space rest in
                if k = ''c'' \<or> k = ''v''
                then [\<lparr>t_key = k, t_number = before_space body, t_text = after_space body\<rparr>]
                else [\<lparr>t_key = k, t_number = [], t_text = body\<rparr>]))"

definition digit_value :: "char \<Rightarrow> nat option" where
  "digit_value c = (let i = indexOf c ''0123456789'' in if i < 0 then None else Some (nat i))"

fun read_digits :: "nat \<Rightarrow> string \<Rightarrow> nat" where
  "read_digits acc [] = acc"
| "read_digits acc (c # cs) =
     (case digit_value c of None \<Rightarrow> acc | Some d \<Rightarrow> read_digits (10 * acc + d) cs)"

definition sample_parseInt :: "string \<Rightarrow> int option" where
  "sample_parseInt t =
     (case t of
        [] \<Rightarrow> None
      | c # cs \<Rightarrow> (case digit_value c of None \<Rightarrow> None | Some d \<Rightarrow> Some (int (read_digits 0 t))))"

definition digit_char :: "nat \<Rightarrow> char" where
  "digit_char d = ''0123456789'' ! d"

function digits_of :: "nat \<Rightarrow> string" where
  "digits_of n = (if n < 10 then [digit_char n] else digits_of (n div 10) @ [digit_char (n mod 10)])"
  by pat_completeness auto
termination
  by (relation "measure (\<lambda>n. n)") auto

definition sample_numToString :: "int option \<Rightarrow> string" where
  "sample_numToString n =
     (case n of
        None \<Rightarrow> ''NaN''
      | Some k \<Rightarrow> if k < 0 then ''-'' @ digits_of (nat (- k)) else digits_of (nat k))"

definition sample_getBookInfo :: "string \<Rightarrow> bookInfo option" where
  "sample_getBookInfo code =
     (if code = ''GEN''
      then Some \<lparr>dbsCode = ''GN'', bi_name = ''Genesis'', names_eng0 = ''Genesis''\<rparr>
      else None)"

definition sample_formatChapterCode :: "string option \<Rightarrow> int option \<Rightarrow> string" where
  "sample_formatChapterCode code n =
     (case code of None \<Rightarrow> ''undefined'' | Some c \<Rightarrow> c) @ sample_numToString n"

definition sample_ext :: ext where
  \<open>sample_ext =
     \<lparr>usfm_parseLine = sample_parseLine,
      bd_getBookInfoByUsfmCode = sample_getBookInfo,
      bf_formatChapterCode = sample_formatChapterCode,
      bf_formatVerseCode = (\<lambda>code ch v. Some (sample_formatChapterCode code ch @ ''_'' @ v)),
      bf_openVerse = (\<lambda>i n. ''<span class="v">'' @ (case n of None \<Rightarrow> [] | Some m \<Rightarrow> m @ '' '')),
      bf_closeVerse = ''</span>'',
      bf_openChapter = (\<lambda>nfo c. ''<div class="chapter" id="'' @ cr_id c @ ''">''),
      bf_closeChapter = ''</div>'',
      js_parseInt = sample_parseInt,
      js_numToString = sample_numToString,
      js_toUpperCase = (\<lambda>t. t)\<rparr>\<close>

definition sample_info :: info where
  "sample_info =
     \<lparr>lang = ''eng'', itype = [], divisions = [], divisionNames = [],
      divisionAbbreviations = [], sections = []\<rparr>"

text \<open>A file of the sample format: each entry becomes a line that starts with a
  backslash; the lines are joined by line feeds.\<close>

fun usfm_file :: "string list \<Rightarrow> string" where
  "usfm_file [] = []"
| "usfm_file [l] = CHR 0x5C # l"
| "usfm_file (l # ls) = CHR 0x5C # l @ CHR 0x0A # usfm_file ls"

text \<open>Sample directories: two chapters of Genesis; a file with a tag the switch does not
  know; a file with one chapter tag; a file without a chapter tag; a file that starts at
  chapter 2; a file where a note opened in chapter 1 is still open at the end; and a file
  where a note opened in the last chapter is still open at the end.\<close>

definition genesis_dir :: "(string \<times> string) list" where
  "genesis_dir =
     [(''01-GEN.usfm'',
       usfm_file [''id GEN'', ''c 1'', ''v 1 In the beginning'', ''p'', ''c 2'',
                  ''v 1 Now the earth''])]"

definition unknown_dir :: "(string \<times> string) list" where
  "unknown_dir = [(''00-FRT.usfm'', usfm_file [''zz front'', ''p'', ''zz again''])]"

definition tiny_dir :: "(string \<times> string) list" where
  "tiny_dir = [(''a.usfm'', usfm_file [''c 1''])]"





text \<open>The run of \<open>generate\<close> on the Genesis directory, from the module as created.\<close>

definition genesis_run :: "outcome \<times> info" where
  "genesis_run = generate sample_ext genesis_dir sample_info True module_init"







section \<open>Properties\<close>

subsection \<open>Basic facts\<close>

text \<open>A close function inside \<^verbatim>\<open>html +=\<close>, without a case distinction: the piece is
  appended when the flag is set, and the flag is clear afterwards.\<close>

lemma emit_closeTextBlock:
  "emit closeTextBlock s =
     (add_html (if textBlockOpen s then [Closing TextBlock (''</div>'' @ htmlBreakingElement)] else []) s)
       \<lparr>textBlockOpen := False\<rparr>"
  by (simp add: emit_def closeTextBlock_def add_html_def)

lemma emit_closeVerseBlock:
  "emit (closeVerseBlock env) s =
     (add_html (if verseBlockOpen s then [Closing VerseBlock (bf_closeVerse env)] else []) s)
       \<lparr>verseBlockOpen := False\<rparr>"
  by (simp add: emit_def closeVerseBlock_def add_html_def)

lemma emit_closeFootnoteBlock:
  "emit closeFootnoteBlock s =
     (add_html (if footnoteBlockOpen s then [Closing FootnoteBlock ''</span></span>''] else []) s)
       \<lparr>footnoteBlockOpen := False\<rparr>"
  by (simp add: emit_def closeFootnoteBlock_def add_html_def)

lemma emit_closeListItemBlock:
  "emit closeListItemBlock s =
     (add_html (if listItemBlockOpen s then [Closing ListItemBlock (''</div>'' @ htmlBreakingElement)] else []) s)
       \<lparr>listItemBlockOpen := False\<rparr>"
  by (simp add: emit_def closeListItemBlock_def add_html_def)

lemmas emit_close = emit_closeTextBlock emit_closeVerseBlock emit_closeFootnoteBlock
  emit_closeListItemBlock

lemma index_pending_verse_fields [simp]:
  "currentChapter (index_pending_verse ci lng s) = currentChapter s"
  "chapterData (index_pending_verse ci lng s) = chapterData s"
  "textBlockOpen (index_pending_verse ci lng s) = textBlockOpen s"
  "verseBlockOpen (index_pending_verse ci lng s) = verseBlockOpen s"
  "footnoteBlockOpen (index_pending_verse ci lng s) = footnoteBlockOpen s"
  "listItemBlockOpen (index_pending_verse ci lng s) = listItemBlockOpen s"
  "currentBook (index_pending_verse ci lng s) = currentBook s"
  "currentVerse (index_pending_verse ci lng s) = currentVerse s"
  "chapterCodes (index_pending_verse ci lng s) = chapterCodes s"
  "unparsedTags (index_pending_verse ci lng s) = unparsedTags s"
  "bookCodes (index_pending_verse ci lng s) = bookCodes s"
  "bookNames (index_pending_verse ci lng s) = bookNames s"
  "bookAbbreviations (index_pending_verse ci lng s) = bookAbbreviations s"
  "noteNumber (index_pending_verse ci lng s) = noteNumber s"
  by (simp_all add: index_pending_verse_def split: option.split)

lemma index_pending_verse_indexData:
  "indexData (index_pending_verse ci lng s) =
     (if ci \<and> v_text (currentVerse s) \<noteq> [] \<and> v_id (currentVerse s) \<noteq> None
      then indexData s @ [(the (v_id (currentVerse s)), v_text (currentVerse s), lng)]
      else indexData s)"
  by (simp add: index_pending_verse_def split: option.split)

lemmas prim_defs = emit_close add_html_def reset_chapter_def closeChapter_def
  book_dbsCode_def book_name_str_def

lemmas case_defs = case_b_def case_c_def case_h_def case_id_def case_toc_name_def case_toc3_def
  case_heading_def case_v_def case_paragraph_def case_list_item_def case_note_def
  case_default_def close_verse_list_text_def


text \<open>Case analysis on the switch: a property of the outcome of every case, each under
  the condition on the key that selects it, is a property of \<open>dispatch\<close>.\<close>

lemma dispatch_cases:
  assumes "t_key r = ''b'' \<Longrightarrow> P (Done (case_b env s))"
    and "t_key r = ''c'' \<Longrightarrow> P (Done (case_c env s r))"
    and "t_key r = ''h'' \<Longrightarrow> P (Done (case_h s r))"
    and "t_key r = ''ide'' \<Longrightarrow> P (Done s)"
    and "t_key r = ''id'' \<Longrightarrow> P (case_id env s r)"
    and "t_key r = ''toc1'' \<or> t_key r = ''toc2'' \<Longrightarrow> P (Done (case_toc_name s r))"
    and "t_key r = ''toc3'' \<Longrightarrow> P (Done (case_toc3 s r))"
    and "t_key r \<in> set heading_keys \<Longrightarrow> P (Done (case_heading env s r))"
    and "t_key r = ''v'' \<Longrightarrow> P (Done (case_v env ci lng s r))"
    and "t_key r \<in> set paragraph_keys \<Longrightarrow> P (Done (case_paragraph env s r))"
    and "t_key r \<in> set list_item_keys \<Longrightarrow> P (Done (case_list_item env s r))"
    and "t_key r = ''x'' \<or> t_key r = ''f'' \<Longrightarrow> P (Done (case_note env s r))"
    and "\<And>t. t_key r \<in> set [''fqa'', ''ft'', ''wj'', ''wj*'', ''qs'', ''qs*'', ''nd'', ''nd*''] \<Longrightarrow>
           P (Done (add_html [Plain t] s))"
    and "t_key r = ''x*'' \<or> t_key r = ''f*'' \<Longrightarrow> P (Done (emit closeFootnoteBlock s))"
    and "t_key r \<notin> set [''b'', ''c'', ''h'', ''ide'', ''id'', ''toc1'', ''toc2'', ''toc3'', ''v'',
            ''x'', ''f'', ''fqa'', ''ft'', ''x*'', ''f*'', ''wj'', ''wj*'', ''qs'', ''qs*'', ''nd'', ''nd*''] \<Longrightarrow>
         t_key r \<notin> set heading_keys \<Longrightarrow> t_key r \<notin> set paragraph_keys \<Longrightarrow>
         t_key r \<notin> set list_item_keys \<Longrightarrow> P (Done (case_default s r))"
  shows "P (dispatch env ci lng s r)"
  unfolding dispatch_def Let_def
  using assms by simp

text \<open>The clean-up at the end of a file, in closed form.\<close>

lemma end_file_effect:
  "chapterData (end_file env ci lng s) =
     chapterData s @
     [\<lparr>cr_id = ch_id (currentChapter s), cr_title = title (currentChapter s),
       cr_html = html (currentChapter s) @ cleanup_closes env s,
       previd = Undefined, nextid = Undefined\<rparr>]"
  "html (currentChapter (end_file env ci lng s)) = []"
  "\<not> textBlockOpen (end_file env ci lng s)"
  "\<not> verseBlockOpen (end_file env ci lng s)"
  "\<not> footnoteBlockOpen (end_file env ci lng s)"
  "\<not> listItemBlockOpen (end_file env ci lng s)"
  "indexData (end_file env ci lng s) =
     (if ci \<and> v_text (currentVerse s) \<noteq> [] \<and> v_id (currentVerse s) \<noteq> None
      then indexData s @ [(the (v_id (currentVerse s)), v_text (currentVerse s), lng)]
      else indexData s)"
  "unparsedTags (end_file env ci lng s) = unparsedTags s"
  "chapterCodes (end_file env ci lng s) = chapterCodes s"
  by (simp_all add: end_file_def prim_defs cleanup_closes_def index_pending_verse_indexData Let_def)

lemma html_str_Nil [simp]: "html_str [] = []"
  by (simp add: html_str_def)

lemma html_str_Cons [simp]: "html_str (f # fs) = frag_str f @ html_str fs"
  by (simp add: html_str_def)

lemma html_str_append [simp]: "html_str (a @ b) = html_str a @ html_str b"
  by (simp add: html_str_def)

subsection \<open>Closing a block that is not open\<close>

lemma emit_nil: "f s = ([], s) \<Longrightarrow> emit f s = s"
  by (simp add: emit_def add_html_def)

text \<open>
  C6. For each of the four kinds of block, the close function called while its flag is
  false returns no piece (the empty string) and the state as it was, so the
  \<^verbatim>\<open>currentChapter.html += close...()\<close> around it changes nothing. The functions are
  total: nothing is thrown.
\<close>

theorem close_not_open_is_noop:
  "(\<not> verseBlockOpen s \<longrightarrow> closeVerseBlock env s = ([], s) \<and> emit (closeVerseBlock env) s = s) \<and>
   (\<not> textBlockOpen s \<longrightarrow> closeTextBlock s = ([], s) \<and> emit closeTextBlock s = s) \<and>
   (\<not> listItemBlockOpen s \<longrightarrow> closeListItemBlock s = ([], s) \<and> emit closeListItemBlock s = s) \<and>
   (\<not> footnoteBlockOpen s \<longrightarrow> closeFootnoteBlock s = ([], s) \<and> emit closeFootnoteBlock s = s)"
  by (simp add: closeVerseBlock_def closeTextBlock_def closeListItemBlock_def
      closeFootnoteBlock_def emit_nil)

theorem close_not_open_is_noop_witness:
  "\<not> verseBlockOpen module_init \<and> \<not> textBlockOpen module_init \<and>
   \<not> listItemBlockOpen module_init \<and> \<not> footnoteBlockOpen module_init \<and>
   closeVerseBlock sample_ext module_init = ([], module_init) \<and>
   emit (closeVerseBlock sample_ext) module_init = module_init \<and>
   closeTextBlock module_init = ([], module_init) \<and>
   emit closeTextBlock module_init = module_init \<and>
   closeListItemBlock module_init = ([], module_init) \<and>
   emit closeListItemBlock module_init = module_init \<and>
   closeFootnoteBlock module_init = ([], module_init) \<and>
   emit closeFootnoteBlock module_init = module_init"
proof -
  have flags: "\<not> verseBlockOpen module_init" "\<not> textBlockOpen module_init"
    "\<not> listItemBlockOpen module_init" "\<not> footnoteBlockOpen module_init"
    by (simp_all add: module_init_def)
  from flags close_not_open_is_noop [of module_init sample_ext] show ?thesis
    by simp
qed

subsection \<open>The post-passes\<close>

declare nav_loop.simps [simp del] wrap_loop.simps [simp del]

lemma nav_loop_length: "length (nav_loop i il cd) = length cd"
proof (induction i il cd rule: nav_loop.induct)
  case (1 i il cd)
  then show ?case by (subst nav_loop.simps) simp
qed

lemma nav_loop_before: "j < i \<Longrightarrow> nav_loop i il cd ! j = cd ! j"
proof (induction i il cd rule: nav_loop.induct)
  case (1 i il cd)
  then show ?case by (subst nav_loop.simps) simp
qed

lemma nav_update_fields:
  "j < length cd \<Longrightarrow>
     cr_id (cd[i := (cd ! i)\<lparr>previd := a, nextid := b\<rparr>] ! j) = cr_id (cd ! j) \<and>
     cr_title (cd[i := (cd ! i)\<lparr>previd := a, nextid := b\<rparr>] ! j) = cr_title (cd ! j) \<and>
     cr_html (cd[i := (cd ! i)\<lparr>previd := a, nextid := b\<rparr>] ! j) = cr_html (cd ! j)"
  by (cases "i = j") simp_all

lemma nav_loop_fields:
  "j < length cd \<Longrightarrow>
     cr_id (nav_loop i il cd ! j) = cr_id (cd ! j) \<and>
     cr_title (nav_loop i il cd ! j) = cr_title (cd ! j) \<and>
     cr_html (nav_loop i il cd ! j) = cr_html (cd ! j)"
proof (induction i il cd rule: nav_loop.induct)
  case (1 i il cd)
  let ?cd' = "cd[i := (cd ! i)
                \<lparr>previd := (if i = 0 then Null else ChapterId (cr_id (cd ! (i - 1)))),
                 nextid := (if i = il - 1 then Null else ChapterId (cr_id (cd ! (i + 1))))\<rparr>]"
  show ?case
  proof (cases "i < il")
    case True
    have unf: "nav_loop i il cd = nav_loop (i + 1) il ?cd'"
      using True by (subst nav_loop.simps) simp
    have same: "cr_id (?cd' ! j) = cr_id (cd ! j) \<and> cr_title (?cd' ! j) = cr_title (cd ! j) \<and>
        cr_html (?cd' ! j) = cr_html (cd ! j)"
      using 1(2) by (rule nav_update_fields)
    from 1(1)[OF True] 1(2) same show ?thesis
      unfolding unf by simp
  next
    case False
    then have "nav_loop i il cd = cd" by (subst nav_loop.simps) simp
    then show ?thesis by simp
  qed
qed

lemma nav_loop_links:
  "il = length cd \<Longrightarrow> i \<le> j \<Longrightarrow> j < il \<Longrightarrow>
     previd (nav_loop i il cd ! j) = (if j = 0 then Null else ChapterId (cr_id (cd ! (j - 1)))) \<and>
     nextid (nav_loop i il cd ! j) = (if j = il - 1 then Null else ChapterId (cr_id (cd ! (j + 1))))"
proof (induction i il cd rule: nav_loop.induct)
  case (1 i il cd)
  let ?r = "(cd ! i)
                \<lparr>previd := (if i = 0 then Null else ChapterId (cr_id (cd ! (i - 1)))),
                 nextid := (if i = il - 1 then Null else ChapterId (cr_id (cd ! (i + 1))))\<rparr>"
  let ?cd' = "cd[i := ?r]"
  from 1 have lt: "i < il" by simp
  have unf: "nav_loop i il cd = nav_loop (i + 1) il ?cd'"
    using lt by (subst nav_loop.simps) simp
  show ?case
  proof (cases "j = i")
    case True
    have "nav_loop (i + 1) il ?cd' ! i = ?cd' ! i"
      by (rule nav_loop_before) simp
    also have "\<dots> = ?r" using lt 1(2) by simp
    finally have "nav_loop i il cd ! j = ?r" using True unf by simp
    then show ?thesis using True by simp
  next
    case False
    with 1 have ij: "i + 1 \<le> j" by simp
    have ids: "\<And>k. k < length cd \<Longrightarrow> cr_id (?cd' ! k) = cr_id (cd ! k)"
      using nav_update_fields by blast
    have len: "il = length ?cd'" using 1(2) by simp
    have a: "previd (nav_loop (i + 1) il ?cd' ! j) =
            (if j = 0 then Null else ChapterId (cr_id (?cd' ! (j - 1)))) \<and>
          nextid (nav_loop (i + 1) il ?cd' ! j) =
            (if j = il - 1 then Null else ChapterId (cr_id (?cd' ! (j + 1))))"
      by (rule 1(1)[OF lt len ij 1(4)])
    have b: "j \<noteq> 0 \<Longrightarrow> cr_id (?cd' ! (j - 1)) = cr_id (cd ! (j - 1))"
      using 1(2,4) by (intro ids) simp
    have c: "j \<noteq> il - 1 \<Longrightarrow> cr_id (?cd' ! (j + 1)) = cr_id (cd ! (j + 1))"
      using 1(2,4) by (intro ids) simp
    show ?thesis unfolding unf using a b c by presburger
  qed
qed

lemma wrap_loop_length: "length (wrap_loop env nfo i il cd) = length cd"
proof (induction env nfo i il cd rule: wrap_loop.induct)
  case (1 env nfo i il cd)
  then show ?case by (subst wrap_loop.simps) simp
qed

lemma wrap_loop_before: "j < i \<Longrightarrow> wrap_loop env nfo i il cd ! j = cd ! j"
proof (induction env nfo i il cd rule: wrap_loop.induct)
  case (1 env nfo i il cd)
  then show ?case by (subst wrap_loop.simps) simp
qed

lemma wrap_loop_nth:
  "il = length cd \<Longrightarrow> i \<le> j \<Longrightarrow> j < il \<Longrightarrow>
     wrap_loop env nfo i il cd ! j =
       (cd ! j)\<lparr>cr_html := [Plain (bf_openChapter env nfo (cd ! j))] @ cr_html (cd ! j) @
                            [Plain (bf_closeChapter env)]\<rparr>"
proof (induction env nfo i il cd rule: wrap_loop.induct)
  case (1 env nfo i il cd)
  let ?r = "(cd ! i)
                \<lparr>cr_html := [Plain (bf_openChapter env nfo (cd ! i))] @ cr_html (cd ! i) @
                            [Plain (bf_closeChapter env)]\<rparr>"
  let ?cd' = "cd[i := ?r]"
  from 1 have lt: "i < il" by simp
  have unf: "wrap_loop env nfo i il cd = wrap_loop env nfo (i + 1) il ?cd'"
    using lt by (subst wrap_loop.simps) simp
  show ?case
  proof (cases "j = i")
    case True
    have "wrap_loop env nfo (i + 1) il ?cd' ! i = ?cd' ! i"
      by (rule wrap_loop_before) simp
    also have "\<dots> = ?r" using lt 1(2) by simp
    finally have "wrap_loop env nfo i il cd ! j = ?r" using True unf by simp
    then show ?thesis using True by simp
  next
    case False
    with 1 have ij: "i + 1 \<le> j" by simp
    have len: "il = length ?cd'" using 1(2) by simp
    have a: "wrap_loop env nfo (i + 1) il ?cd' ! j =
       (?cd' ! j)\<lparr>cr_html := [Plain (bf_openChapter env nfo (?cd' ! j))] @ cr_html (?cd' ! j) @
                            [Plain (bf_closeChapter env)]\<rparr>"
      by (rule 1(1)[OF lt len ij 1(4)])
    have b: "?cd' ! j = cd ! j" using False by simp
    show ?thesis unfolding unf a b ..
  qed
qed

lemma postprocess_length: "length (postprocess env nfo cd) = length cd"
  by (simp add: postprocess_def wrapChapterHtmlElements_def addChapterNavigation_def
      wrap_loop_length nav_loop_length)

lemma postprocess_nth:
  assumes "j < length cd"
  shows "postprocess env nfo cd ! j =
     (cd ! j)\<lparr>previd := (if j = 0 then Null else ChapterId (cr_id (cd ! (j - 1)))),
              nextid := (if j = length cd - 1 then Null else ChapterId (cr_id (cd ! (j + 1)))),
              cr_html := [Plain (bf_openChapter env nfo (addChapterNavigation cd ! j))] @
                         cr_html (cd ! j) @ [Plain (bf_closeChapter env)]\<rparr>"
proof -
  let ?n = "addChapterNavigation cd"
  have len: "length ?n = length cd" by (simp add: addChapterNavigation_def nav_loop_length)
  have w: "postprocess env nfo cd ! j =
      (?n ! j)\<lparr>cr_html := [Plain (bf_openChapter env nfo (?n ! j))] @ cr_html (?n ! j) @
                            [Plain (bf_closeChapter env)]\<rparr>"
    unfolding postprocess_def wrapChapterHtmlElements_def
    using assms len by (intro wrap_loop_nth) simp_all
  have f: "cr_id (?n ! j) = cr_id (cd ! j) \<and> cr_title (?n ! j) = cr_title (cd ! j) \<and>
     cr_html (?n ! j) = cr_html (cd ! j)"
    unfolding addChapterNavigation_def using assms by (rule nav_loop_fields)
  have l: "previd (?n ! j) = (if j = 0 then Null else ChapterId (cr_id (cd ! (j - 1)))) \<and>
     nextid (?n ! j) = (if j = length cd - 1 then Null else ChapterId (cr_id (cd ! (j + 1))))"
    unfolding addChapterNavigation_def using assms by (intro nav_loop_links) simp_all
  show ?thesis unfolding w using f l
    by (intro chapterRecord.equality) simp_all
qed

lemma generate_Done:
  "fst (generate env dir nfo createIndex s) = Done s' \<Longrightarrow>
     \<exists>s1. process_files env createIndex (lang nfo) (begin_generate dir s) dir = Done s1 \<and>
          s' = s1\<lparr>chapterData := postprocess env (finish_info nfo s1) (chapterData s1)\<rparr>"
  by (auto simp: generate_def Let_def split: outcome.splits)

lemma linked_postprocess: "linked (postprocess env nfo cd)"
  unfolding linked_def
proof (intro allI impI)
  fix i
  assume "i < length (postprocess env nfo cd)"
  then have i: "i < length cd" by (simp add: postprocess_length)
  then have p: "i \<noteq> 0 \<Longrightarrow> i - 1 < length cd" and n: "i \<noteq> length cd - 1 \<Longrightarrow> i + 1 < length cd"
    by simp_all
  show "previd (postprocess env nfo cd ! i) =
          (if i = 0 then Null else ChapterId (cr_id (postprocess env nfo cd ! (i - 1)))) \<and>
        nextid (postprocess env nfo cd ! i) =
          (if i = length (postprocess env nfo cd) - 1 then Null
           else ChapterId (cr_id (postprocess env nfo cd ! (i + 1))))"
    using i p n by (simp add: postprocess_nth postprocess_length)
qed

text \<open>
  C3. After the two post-passes every record of the chapter list has, as \<open>previd\<close>, the
  id of the record before it and, as \<open>nextid\<close>, the id of the record after it; the first
  record's \<open>previd\<close> and the last record's \<open>nextid\<close> are null. This holds of the
  post-passes on any list, and so of the \<open>chapterData\<close> that a completed call of
  \<open>generate\<close> returns.
\<close>

theorem chapter_navigation_links:
  "linked (postprocess env nfo cd) \<and>
   (\<forall>s'. fst (generate env dir nfo createIndex s) = Done s' \<longrightarrow> linked (chapterData s'))"
proof (intro conjI allI impI)
  show "linked (postprocess env nfo cd)" by (rule linked_postprocess)
next
  fix s'
  assume "fst (generate env dir nfo createIndex s) = Done s'"
  from generate_Done [OF this] show "linked (chapterData s')"
    by (auto simp: linked_postprocess)
qed

theorem chapter_navigation_links_witness:
  "fst genesis_run = Done (state_of (fst genesis_run)) \<and>
   linked (chapterData (state_of (fst genesis_run))) \<and>
   map (\<lambda>c. (cr_id c, previd c, nextid c)) (chapterData (state_of (fst genesis_run))) =
     [(''GN1'', Null, ChapterId ''GN2''), (''GN2'', ChapterId ''GN1'', Null)]"
proof -
  have d: "fst genesis_run = Done (state_of (fst genesis_run))"
    by code_simp
  have v: "map (\<lambda>c. (cr_id c, previd c, nextid c)) (chapterData (state_of (fst genesis_run))) =
     [(''GN1'', Null, ChapterId ''GN2''), (''GN2'', ChapterId ''GN1'', Null)]"
    by code_simp
  from chapter_navigation_links [of sample_ext sample_info "[]" genesis_dir True module_init] d
  have "linked (chapterData (state_of (fst genesis_run)))"
    unfolding genesis_run_def by blast
  with d v show ?thesis by simp
qed

subsection \<open>What the loops preserve\<close>

text \<open>A relation between states that holds across each step of the run holds across
  the loops.\<close>

lemma process_tags_rel:
  assumes "\<And>s. R s s" and "\<And>a b c. R a b \<Longrightarrow> R b c \<Longrightarrow> R a c"
    and "\<And>s r. R s (state_of (dispatch env ci lng s r))"
  shows "R s (state_of (process_tags env ci lng s rs))"
proof (induction rs arbitrary: s)
  case Nil
  show ?case by (simp add: assms(1))
next
  case (Cons r rs)
  show ?case
  proof (cases "dispatch env ci lng s r")
    case (Done s')
    have a: "R s s'" using assms(3) [of s r] Done by simp
    have b: "R s' (state_of (process_tags env ci lng s' rs))" by (rule Cons.IH)
    have "R s (state_of (process_tags env ci lng s' rs))" by (rule assms(2) [OF a b])
    then show ?thesis using Done by simp
  next
    case (Threw e s')
    then show ?thesis using assms(3) [of s r] by simp
  qed
qed

lemma process_lines_rel:
  assumes "\<And>s. R s s" and "\<And>a b c. R a b \<Longrightarrow> R b c \<Longrightarrow> R a c"
    and "\<And>s r. R s (state_of (dispatch env ci lng s r))"
    and "\<And>s l. R s (untagged_line s l)"
  shows "R s (state_of (process_lines env ci lng s ls))"
proof (induction ls arbitrary: s)
  case Nil
  show ?case by (simp add: assms(1))
next
  case (Cons l ls)
  show ?case
  proof (cases "length (usfm_parseLine env l) = 0")
    case True
    have a: "R s (untagged_line s l)" by (rule assms(4))
    have b: "R (untagged_line s l) (state_of (process_lines env ci lng (untagged_line s l) ls))"
      by (rule Cons.IH)
    have "R s (state_of (process_lines env ci lng (untagged_line s l) ls))"
      by (rule assms(2) [OF a b])
    then show ?thesis using True by (simp add: Let_def)
  next
    case False
    have t: "R s (state_of (process_tags env ci lng s (usfm_parseLine env l)))"
      by (rule process_tags_rel [of R, OF assms(1,2,3)])
    show ?thesis
    proof (cases "process_tags env ci lng s (usfm_parseLine env l)")
      case (Done s')
      have a: "R s s'" using t Done by simp
      have b: "R s' (state_of (process_lines env ci lng s' ls))" by (rule Cons.IH)
      have "R s (state_of (process_lines env ci lng s' ls))" by (rule assms(2) [OF a b])
      then show ?thesis using Done False by (simp add: Let_def)
    next
      case (Threw e s')
      with t False show ?thesis by (simp add: Let_def)
    qed
  qed
qed

lemma process_file_rel:
  assumes "\<And>s. R s s" and "\<And>a b c. R a b \<Longrightarrow> R b c \<Longrightarrow> R a c"
    and "\<And>s r. R s (state_of (dispatch env ci lng s r))"
    and "\<And>s l. R s (untagged_line s l)"
    and "\<And>s. R s (begin_file s)"
    and "\<And>s. R s (end_file env ci lng s)"
  shows "R s (state_of (process_file env ci lng s f))"
proof (cases "contains ''.usfm'' (fst f)")
  case False
  then show ?thesis by (simp add: process_file_def assms(1))
next
  case True
  let ?ls = "split_on (CHR 0x0A) (snd f)"
  have l: "R (begin_file s) (state_of (process_lines env ci lng (begin_file s) ?ls))"
    by (rule process_lines_rel [of R, OF assms(1,2,3,4)])
  have b: "R s (begin_file s)" by (rule assms(5))
  have bl: "R s (state_of (process_lines env ci lng (begin_file s) ?ls))"
    by (rule assms(2) [OF b l])
  show ?thesis
  proof (cases "process_lines env ci lng (begin_file s) ?ls")
    case (Done s')
    have a: "R s s'" using bl Done by simp
    have e: "R s' (end_file env ci lng s')" by (rule assms(6))
    have "R s (end_file env ci lng s')" by (rule assms(2) [OF a e])
    then show ?thesis using Done True by (simp add: process_file_def)
  next
    case (Threw e s')
    with bl True show ?thesis by (simp add: process_file_def)
  qed
qed

lemma process_files_rel:
  assumes "\<And>s. R s s" and "\<And>a b c. R a b \<Longrightarrow> R b c \<Longrightarrow> R a c"
    and "\<And>s r. R s (state_of (dispatch env ci lng s r))"
    and "\<And>s l. R s (untagged_line s l)"
    and "\<And>s. R s (begin_file s)"
    and "\<And>s. R s (end_file env ci lng s)"
  shows "R s (state_of (process_files env ci lng s fs))"
proof (induction fs arbitrary: s)
  case Nil
  show ?case by (simp add: assms(1))
next
  case (Cons f fs)
  have one: "R s (state_of (process_file env ci lng s f))"
    by (rule process_file_rel [of R, OF assms])
  show ?case
  proof (cases "process_file env ci lng s f")
    case (Done s')
    have a: "R s s'" using one Done by simp
    have b: "R s' (state_of (process_files env ci lng s' fs))" by (rule Cons.IH)
    have "R s (state_of (process_files env ci lng s' fs))" by (rule assms(2) [OF a b])
    then show ?thesis using Done by simp
  next
    case (Threw e s')
    with one show ?thesis by simp
  qed
qed

subsection \<open>Records already stored\<close>

lemma dispatch_chapterData_prefix:
  "prefix (chapterData s) (chapterData (state_of (dispatch env ci lng s r)))"
  by (rule dispatch_cases [of r _ env s ci lng])
     (simp_all add: case_defs prim_defs Let_def split: option.split)

lemma untagged_chapterData: "chapterData (untagged_line s l) = chapterData s"
  by (simp add: untagged_line_def add_html_def)

lemma begin_file_chapterData: "chapterData (begin_file s) = chapterData s"
  by (simp add: begin_file_def)

lemma end_file_chapterData_prefix: "prefix (chapterData s) (chapterData (end_file env ci lng s))"
  by (simp add: end_file_effect)

lemma process_files_chapterData_prefix:
  "prefix (chapterData s) (chapterData (state_of (process_files env ci lng s fs)))"
proof (rule process_files_rel [of "\<lambda>a b. prefix (chapterData a) (chapterData b)"])
  fix a b c :: state
  assume "prefix (chapterData a) (chapterData b)" "prefix (chapterData b) (chapterData c)"
  then show "prefix (chapterData a) (chapterData c)" by (rule prefix_order.trans)
qed (simp_all add: dispatch_chapterData_prefix untagged_chapterData begin_file_chapterData
        end_file_chapterData_prefix)

text \<open>
  C9, as amended. No step of the run changes or removes a record already in
  \<open>chapterData\<close>: each step leaves the list as a prefix of the list after it. The
  post-passes keep the number of records and the \<open>id\<close> and \<open>title\<close> of each; they
  set \<open>previd\<close> and \<open>nextid\<close> and they do change \<open>html\<close>, which becomes the
  formatter's chapter opening, the html as stored, and the formatter's chapter closing.
\<close>

theorem appended_records_frame:
  "prefix (chapterData s) (chapterData (state_of (dispatch env ci lng s r))) \<and>
   prefix (chapterData s) (chapterData (untagged_line s l)) \<and>
   prefix (chapterData s) (chapterData (end_file env ci lng s)) \<and>
   prefix (chapterData s) (chapterData (state_of (process_files env ci lng s fs))) \<and>
   length (postprocess env nfo cd) = length cd \<and>
   (\<forall>j < length cd.
      cr_id (postprocess env nfo cd ! j) = cr_id (cd ! j) \<and>
      cr_title (postprocess env nfo cd ! j) = cr_title (cd ! j) \<and>
      html_str (cr_html (postprocess env nfo cd ! j)) =
        bf_openChapter env nfo (addChapterNavigation cd ! j) @ html_str (cr_html (cd ! j)) @
        bf_closeChapter env)"
  by (simp add: dispatch_chapterData_prefix untagged_chapterData end_file_chapterData_prefix
      process_files_chapterData_prefix postprocess_length postprocess_nth)

theorem appended_records_frame_witness:
  \<open>map cr_id (chapterData (state_of (fst genesis_run))) = [''GN1'', ''GN2''] \<and>
   map cr_title (chapterData (state_of (fst genesis_run))) = [''Genesis 1'', ''Genesis 2''] \<and>
   cr_id (postprocess sample_ext sample_info
       [\<lparr>cr_id = ''GN1'', cr_title = ''Genesis 1'', cr_html = [Plain ''x''],
         previd = Undefined, nextid = Undefined\<rparr>] ! 0) = ''GN1'' \<and>
   html_str (cr_html (postprocess sample_ext sample_info
       [\<lparr>cr_id = ''GN1'', cr_title = ''Genesis 1'', cr_html = [Plain ''x''],
         previd = Undefined, nextid = Undefined\<rparr>] ! 0)) = ''<div class="chapter" id="GN1">x</div>''\<close>
proof -
  let ?cd = "[\<lparr>cr_id = ''GN1'', cr_title = ''Genesis 1'', cr_html = [Plain ''x''],
         previd = Undefined, nextid = Undefined\<rparr>]"
  have a: "map cr_id (chapterData (state_of (fst genesis_run))) = [''GN1'', ''GN2'']"
    by code_simp
  have b: "map cr_title (chapterData (state_of (fst genesis_run))) = [''Genesis 1'', ''Genesis 2'']"
    by code_simp
  have n: "addChapterNavigation ?cd ! 0 = (?cd ! 0)\<lparr>previd := Null, nextid := Null\<rparr>"
    by code_simp
  have l: "(0::nat) < length ?cd" by simp
  from appended_records_frame [of module_init sample_ext True "''eng''" "\<lparr>t_key = [], t_number = [], t_text = []\<rparr>" "[]" "[]" sample_info ?cd] l
  have "cr_id (postprocess sample_ext sample_info ?cd ! 0) = cr_id (?cd ! 0) \<and>
      html_str (cr_html (postprocess sample_ext sample_info ?cd ! 0)) =
        bf_openChapter sample_ext sample_info (addChapterNavigation ?cd ! 0) @ html_str (cr_html (?cd ! 0)) @
        bf_closeChapter sample_ext"
    by blast
  then show ?thesis using a b by (simp add: n sample_ext_def)
qed

text \<open>
  C9 as stated fails: \<^verbatim>\<open>wrapChapterHtmlElements\<close> assigns \<^verbatim>\<open>chapter.html\<close>. In the
  sample run on a file with the one line \<^verbatim>\<open>\c 1\<close>, the record's html is one string
  when the loop over the files ends and a longer one when \<open>generate\<close> returns.
\<close>

theorem postprocess_changes_html_counterexample:
  \<open>html_str (cr_html (chapterData (state_of
       (process_files sample_ext True ''eng'' (begin_generate tiny_dir module_init) tiny_dir)) ! 0))
     = ''<div class="c">1</div>'' @ [CHR 0x0A] \<and>
   html_str (cr_html (chapterData (state_of
       (fst (generate sample_ext tiny_dir sample_info True module_init))) ! 0))
     = ''<div class="chapter" id="undefined1"><div class="c">1</div>'' @ [CHR 0x0A] @ ''</div>''\<close>
  by code_simp

subsection \<open>The registry of unparsed tags\<close>

lemma dispatch_unparsedTags_prefix:
  "prefix (unparsedTags s) (unparsedTags (state_of (dispatch env ci lng s r)))"
  by (rule dispatch_cases [of r _ env s ci lng])
     (simp_all add: case_defs prim_defs Let_def split: option.split)

lemma untagged_unparsedTags: "unparsedTags (untagged_line s l) = unparsedTags s"
  by (simp add: untagged_line_def add_html_def)

lemma begin_file_unparsedTags: "unparsedTags (begin_file s) = unparsedTags s"
  by (simp add: begin_file_def)

lemma end_file_unparsedTags: "unparsedTags (end_file env ci lng s) = unparsedTags s"
  by (simp add: end_file_effect)

lemma begin_generate_unparsedTags: "unparsedTags (begin_generate dir s) = unparsedTags s"
  by (simp add: begin_generate_def begin_file_def)

lemma process_files_unparsedTags_prefix:
  "prefix (unparsedTags s) (unparsedTags (state_of (process_files env ci lng s fs)))"
proof (rule process_files_rel [of "\<lambda>a b. prefix (unparsedTags a) (unparsedTags b)"])
  fix a b c :: state
  assume "prefix (unparsedTags a) (unparsedTags b)" "prefix (unparsedTags b) (unparsedTags c)"
  then show "prefix (unparsedTags a) (unparsedTags c)" by (rule prefix_order.trans)
qed (simp_all add: dispatch_unparsedTags_prefix untagged_unparsedTags begin_file_unparsedTags
        end_file_unparsedTags)

lemma generate_unparsedTags_prefix:
  "prefix (unparsedTags s) (unparsedTags (state_of (fst (generate env dir nfo ci s))))"
proof -
  let ?p = "process_files env ci (lang nfo) (begin_generate dir s) dir"
  have "prefix (unparsedTags (begin_generate dir s)) (unparsedTags (state_of ?p))"
    by (rule process_files_unparsedTags_prefix)
  then have a: "prefix (unparsedTags s) (unparsedTags (state_of ?p))"
    by (simp add: begin_generate_unparsedTags)
  show ?thesis
  proof (cases ?p)
    case (Done s')
    with a show ?thesis by (simp add: generate_def Let_def)
  next
    case (Threw e s')
    with a show ?thesis by (simp add: generate_def)
  qed
qed

text \<open>
  C10. \<^verbatim>\<open>uwObject.unparsedTags\<close> is a variable of the module that \<open>generate\<close> never
  assigns. Take any call of \<open>generate\<close> and the module state it leaves (whether it
  returned or threw), and a second call from that state. The assignments that start the
  second call keep the registry; every step of its loops (a dispatch, an untagged line,
  the start and the clean-up of a file) leaves the registry it found as a prefix of the
  registry it leaves; so the registry left by the first call is a prefix of the registry
  left by the second, and every key of the first is in it.
\<close>

theorem unparsedTags_persist_across_runs:
  "unparsedTags (begin_generate dir2 (state_of (fst (generate env dir1 nfo1 ci1 s0)))) =
     unparsedTags (state_of (fst (generate env dir1 nfo1 ci1 s0))) \<and>
   (\<forall>s r. prefix (unparsedTags s) (unparsedTags (state_of (dispatch env ci2 lng s r)))) \<and>
   (\<forall>s l. unparsedTags (untagged_line s l) = unparsedTags s) \<and>
   (\<forall>s. unparsedTags (begin_file s) = unparsedTags s) \<and>
   (\<forall>s. unparsedTags (end_file env ci2 lng s) = unparsedTags s) \<and>
   prefix (unparsedTags (state_of (fst (generate env dir1 nfo1 ci1 s0))))
     (unparsedTags (state_of (fst (generate env dir2 nfo2 ci2
        (state_of (fst (generate env dir1 nfo1 ci1 s0))))))) \<and>
   set (unparsedTags (state_of (fst (generate env dir1 nfo1 ci1 s0)))) \<subseteq>
     set (unparsedTags (state_of (fst (generate env dir2 nfo2 ci2
        (state_of (fst (generate env dir1 nfo1 ci1 s0)))))))"
  by (simp add: begin_generate_unparsedTags dispatch_unparsedTags_prefix untagged_unparsedTags
      begin_file_unparsedTags end_file_unparsedTags generate_unparsedTags_prefix set_mono_prefix)

theorem unparsedTags_persist_across_runs_witness:
  "unparsedTags (state_of (fst (generate sample_ext unknown_dir sample_info True module_init))) = [''zz''] \<and>
   unparsedTags (state_of (fst (generate sample_ext genesis_dir sample_info True
      (state_of (fst (generate sample_ext unknown_dir sample_info True module_init)))))) = [''zz''] \<and>
   set [''zz''] \<subseteq> set (unparsedTags (state_of (fst (generate sample_ext genesis_dir sample_info True
      (state_of (fst (generate sample_ext unknown_dir sample_info True module_init)))))))"
proof -
  have a: "unparsedTags (state_of (fst (generate sample_ext unknown_dir sample_info True module_init))) = [''zz'']"
    by code_simp
  have b: "unparsedTags (state_of (fst (generate sample_ext genesis_dir sample_info True
      (state_of (fst (generate sample_ext unknown_dir sample_info True module_init)))))) = [''zz'']"
    by code_simp
  from unparsedTags_persist_across_runs [of genesis_dir sample_ext unknown_dir sample_info True
      module_init True "''eng''" sample_info] a
  have "set [''zz''] \<subseteq> set (unparsedTags (state_of (fst (generate sample_ext genesis_dir sample_info True
      (state_of (fst (generate sample_ext unknown_dir sample_info True module_init)))))))"
    by simp
  with a b show ?thesis by simp
qed

subsection \<open>Lines without a tag\<close>

text \<open>
  C7, as amended. When the parser gives no tag for a line that has a character other than
  white space, the loop goes on to the next line with one piece appended to the chapter
  and nothing else changed: the piece is a space followed by the line as it was read, so
  the html string grows by \<^verbatim>\<open>' ' + line\<close>.
\<close>

theorem untagged_line_appended_after_space:
  "usfm_parseLine env line = [] \<and> has_text line \<longrightarrow>
     process_lines env ci lng s (line # lines) =
       process_lines env ci lng (untagged_line s line) lines \<and>
     untagged_line s line =
       s\<lparr>currentChapter := (currentChapter s)
           \<lparr>html := html (currentChapter s) @ [Plain ('' '' @ line)]\<rparr>\<rparr> \<and>
     html_str (html (currentChapter (untagged_line s line))) =
       html_str (html (currentChapter s)) @ '' '' @ line"
  by (simp add: untagged_line_def add_html_def)

theorem untagged_line_appended_after_space_witness:
  "usfm_parseLine sample_ext ''In the beginning'' = [] \<and> has_text ''In the beginning'' \<and>
   process_lines sample_ext True ''eng'' (begin_file module_init) [''In the beginning''] =
     Done (untagged_line (begin_file module_init) ''In the beginning'') \<and>
   html_str (html (currentChapter (untagged_line (begin_file module_init) ''In the beginning''))) =
     '' In the beginning''"
proof -
  have p: "usfm_parseLine sample_ext ''In the beginning'' = []" by code_simp
  have t: "has_text ''In the beginning''" by code_simp
  have h: "html_str (html (currentChapter (begin_file module_init))) = []" by code_simp
  from untagged_line_appended_after_space
    [of sample_ext "''In the beginning''" True "''eng''" "begin_file module_init" "[]"] p t h
  show ?thesis by simp
qed

text \<open>
  C7 as stated fails: what is appended is not the line alone. From the empty html of a
  new file, the untagged line \<^verbatim>\<open>In the beginning\<close> leaves the html
  \<^verbatim>\<open>' In the beginning'\<close>, with a space before it.
\<close>

theorem untagged_line_verbatim_counterexample:
  "usfm_parseLine sample_ext ''In the beginning'' = [] \<and> has_text ''In the beginning'' \<and>
   html_str (html (currentChapter (begin_file module_init))) = [] \<and>
   html_str (html (currentChapter (state_of
     (process_lines sample_ext True ''eng'' (begin_file module_init) [''In the beginning''])))) =
     '' In the beginning'' \<and>
   html_str (html (currentChapter (state_of
     (process_lines sample_ext True ''eng'' (begin_file module_init) [''In the beginning''])))) \<noteq>
   html_str (html (currentChapter (begin_file module_init))) @ ''In the beginning''"
  by code_simp

subsection \<open>The caller of a note\<close>

lemma indexOf_notin: "c \<notin> set t \<Longrightarrow> indexOf c t = -1"
  by (induction t) (auto simp: Let_def)

lemma indexOf_in: "c \<in> set t \<Longrightarrow> indexOf c t = int (length (takeWhile (\<lambda>x. x \<noteq> c) t))"
  by (induction t) (auto simp: Let_def indexOf_notin)

lemma stripCaller_cases:
  "stripCaller t =
     (if CHR '' '' \<in> set t then drop 1 (dropWhile (\<lambda>c. c \<noteq> CHR '' '') t) else t)"
proof (cases "CHR '' '' \<in> set t")
  case True
  have "drop (Suc (length (takeWhile (\<lambda>c. c \<noteq> CHR '' '') t))) t =
        drop 1 (drop (length (takeWhile (\<lambda>c. c \<noteq> CHR '' '') t)) t)"
    by simp
  also have "\<dots> = drop 1 (dropWhile (\<lambda>c. c \<noteq> CHR '' '') t)"
    by (simp only: dropWhile_eq_drop)
  finally show ?thesis using True
    by (simp add: stripCaller_def substring_from_def indexOf_in Let_def nat_add_distrib)
next
  case False
  then show ?thesis
    by (simp add: stripCaller_def substring_from_def indexOf_notin)
qed

text \<open>
  The \<^verbatim>\<open>x\<close>/\<^verbatim>\<open>f\<close> case appends the opening of the note and then
  \<open>stripCaller\<close> of the record's text. Where the caller is one character that is not a
  space and a space follows it, the text appended is what follows that space. Where the
  text has no space, \<open>stripCaller\<close> returns it whole.
\<close>

lemma note_case_text:
  "((t_key r = ''f'' \<or> t_key r = ''x'') \<longrightarrow>
      dispatch env ci lng s r = Done (case_note env s r) \<and>
      html (currentChapter (case_note env s r)) =
        html (currentChapter s) @
        [Opening FootnoteBlock (note_open env (noteNumber s)), Plain (stripCaller (t_text r))]) \<and>
   (c \<noteq> CHR '' '' \<longrightarrow> stripCaller (c # CHR '' '' # rest) = rest) \<and>
   (CHR '' '' \<notin> set t \<longrightarrow> stripCaller t = t)"
proof (intro conjI impI)
  assume k: "t_key r = ''f'' \<or> t_key r = ''x''"
  then show "dispatch env ci lng s r = Done (case_note env s r)"
    by (auto simp: dispatch_def heading_keys_def paragraph_keys_def list_item_keys_def)
  show "html (currentChapter (case_note env s r)) =
        html (currentChapter s) @
        [Opening FootnoteBlock (note_open env (noteNumber s)), Plain (stripCaller (t_text r))]"
    by (simp add: case_note_def add_html_def Let_def)
next
  assume "c \<noteq> CHR '' ''"
  then show "stripCaller (c # CHR '' '' # rest) = rest"
    by (simp add: stripCaller_cases)
next
  assume "CHR '' '' \<notin> set t"
  then show "stripCaller t = t"
    by (simp add: stripCaller_cases)
qed

text \<open>
  C8. For every \<^verbatim>\<open>f\<close> or \<^verbatim>\<open>x\<close> record, the text included in the note is the
  record's text with its leading one-character caller stripped, as the comment of
  \<open>stripCaller\<close> says (\<^verbatim>\<open>Strip off the caller ... \f uses a +, -, or ?\<close>). The
  code misses this for a record whose text is the caller alone: \<^verbatim>\<open>indexOf(' ')\<close> is
  -1, \<^verbatim>\<open>substring(0)\<close> is the whole text, and the caller \<^verbatim>\<open>+\<close> is appended to
  the note as its text.
\<close>

theorem footnote_caller_kept_without_space:
  "indexOf (CHR '' '') ''+'' = -1 \<and>
   stripCaller ''+'' = ''+'' \<and>
   dispatch sample_ext True ''eng'' (begin_file module_init)
      \<lparr>t_key = ''f'', t_number = [], t_text = ''+''\<rparr> =
     Done (case_note sample_ext (begin_file module_init)
       \<lparr>t_key = ''f'', t_number = [], t_text = ''+''\<rparr>) \<and>
   html (currentChapter (state_of (dispatch sample_ext True ''eng'' (begin_file module_init)
      \<lparr>t_key = ''f'', t_number = [], t_text = ''+''\<rparr>))) =
     [Opening FootnoteBlock (note_open sample_ext 1), Plain ''+'']"
  by code_simp

subsection \<open>Verse markers and the index\<close>

lemma dispatch_v: "t_key r = ''v'' \<Longrightarrow> dispatch env ci lng s r = Done (case_v env ci lng s r)"
  by (simp add: dispatch_def heading_keys_def)

lemma dispatch_not_v_currentVerse:
  "t_key r \<noteq> ''v'' \<Longrightarrow> currentVerse (state_of (dispatch env ci lng s r)) = currentVerse s"
  by (rule dispatch_cases [of r _ env s ci lng])
     (simp_all add: case_defs prim_defs Let_def split: option.split)

lemma process_tags_not_v_currentVerse:
  "\<forall>r \<in> set rs. t_key r \<noteq> ''v'' \<Longrightarrow>
     currentVerse (state_of (process_tags env ci lng s rs)) = currentVerse s"
proof (induction rs arbitrary: s)
  case Nil
  show ?case by simp
next
  case (Cons r rs)
  then have r: "t_key r \<noteq> ''v''" and rs: "\<forall>r \<in> set rs. t_key r \<noteq> ''v''" by simp_all
  show ?case
  proof (cases "dispatch env ci lng s r")
    case (Done s')
    with dispatch_not_v_currentVerse [OF r, of env ci lng s] Cons.IH [OF rs, of s']
    show ?thesis by simp
  next
    case (Threw e s')
    with dispatch_not_v_currentVerse [OF r, of env ci lng s] show ?thesis by simp
  qed
qed

lemma case_v_effect:
  "html (currentChapter (case_v env ci lng s r)) =
     html (currentChapter s) @
     (if verseBlockOpen s then [Closing VerseBlock (bf_closeVerse env)] else []) @
     [Opening VerseBlock
        (bf_openVerse env
           (bf_formatVerseCode env (book_dbsCode s) (ch_number (currentChapter s)) (t_number r))
           (Some (t_number r))),
      Plain (t_text r)]"
  "indexData (case_v env ci lng s r) =
     (if ci \<and> v_text (currentVerse s) \<noteq> [] \<and> v_id (currentVerse s) \<noteq> None
      then indexData s @ [(the (v_id (currentVerse s)), v_text (currentVerse s), lng)]
      else indexData s)"
  "currentVerse (case_v env ci lng s r) =
     \<lparr>v_id = bf_formatVerseCode env (book_dbsCode s) (ch_number (currentChapter s)) (t_number r),
      v_number = t_number r, v_text = t_text r\<rparr>"
  "verseBlockOpen (case_v env ci lng s r)"
  by (simp_all add: case_v_def prim_defs index_pending_verse_indexData Let_def)

text \<open>
  C2. A \<^verbatim>\<open>v\<close> record is handled by the \<^verbatim>\<open>v\<close> case, which first closes the
  verse block (its closing piece is appended exactly when the block was open), then
  submits the verse accumulated so far to the indexer exactly when index creation is on,
  its text is not empty and its id is not null, and only then overwrites the verse from
  the record, appends the opening of the new verse with its text and sets the verse flag.
  Hence, after a \<^verbatim>\<open>v\<close> record with empty text, followed by any tags other than
  \<^verbatim>\<open>v\<close>, the next \<^verbatim>\<open>v\<close> record makes no call of the indexer.
\<close>

theorem verse_marker_indexes_previous_verse:
  "(t_key r = ''v'' \<longrightarrow>
      dispatch env ci lng s r = Done (case_v env ci lng s r) \<and>
      html (currentChapter (case_v env ci lng s r)) =
        html (currentChapter s) @
        (if verseBlockOpen s then [Closing VerseBlock (bf_closeVerse env)] else []) @
        [Opening VerseBlock
           (bf_openVerse env
              (bf_formatVerseCode env (book_dbsCode s) (ch_number (currentChapter s)) (t_number r))
              (Some (t_number r))),
         Plain (t_text r)] \<and>
      indexData (case_v env ci lng s r) =
        (if ci \<and> v_text (currentVerse s) \<noteq> [] \<and> v_id (currentVerse s) \<noteq> None
         then indexData s @ [(the (v_id (currentVerse s)), v_text (currentVerse s), lng)]
         else indexData s) \<and>
      currentVerse (case_v env ci lng s r) =
        \<lparr>v_id = bf_formatVerseCode env (book_dbsCode s) (ch_number (currentChapter s)) (t_number r),
         v_number = t_number r, v_text = t_text r\<rparr> \<and>
      verseBlockOpen (case_v env ci lng s r)) \<and>
   (t_key r1 = ''v'' \<and> t_text r1 = [] \<and> (\<forall>r' \<in> set rs. t_key r' \<noteq> ''v'') \<and> t_key r2 = ''v'' \<and>
    process_tags env ci lng s (r1 # rs) = Done s1 \<longrightarrow>
      indexData (state_of (dispatch env ci lng s1 r2)) = indexData s1)"
proof (intro conjI impI)
  assume "t_key r = ''v''"
  then show "dispatch env ci lng s r = Done (case_v env ci lng s r)" by (rule dispatch_v)
next
  assume a: "t_key r1 = ''v'' \<and> t_text r1 = [] \<and> (\<forall>r' \<in> set rs. t_key r' \<noteq> ''v'') \<and>
    t_key r2 = ''v'' \<and> process_tags env ci lng s (r1 # rs) = Done s1"
  then have k1: "t_key r1 = ''v''" and t1: "t_text r1 = []"
    and rs: "\<forall>r' \<in> set rs. t_key r' \<noteq> ''v''" and k2: "t_key r2 = ''v''"
    and run: "process_tags env ci lng s (r1 # rs) = Done s1"
    by simp_all
  have p: "process_tags env ci lng (case_v env ci lng s r1) rs = Done s1"
    using run by (simp add: dispatch_v [OF k1])
  have "currentVerse (state_of (process_tags env ci lng (case_v env ci lng s r1) rs)) =
      currentVerse (case_v env ci lng s r1)"
    using rs by (rule process_tags_not_v_currentVerse)
  with p t1 have "v_text (currentVerse s1) = []" by (simp add: case_v_effect)
  then show "indexData (state_of (dispatch env ci lng s1 r2)) = indexData s1"
    by (simp add: dispatch_v [OF k2] case_v_effect)
qed (simp_all add: case_v_effect)


theorem verse_marker_indexes_previous_verse_witness:
  "indexData (state_of (process_tags sample_ext True ''eng'' (begin_file module_init)
      [\<lparr>t_key = ''v'', t_number = ''1'', t_text = ''In the beginning''\<rparr>,
       \<lparr>t_key = ''v'', t_number = ''2'', t_text = []\<rparr>])) =
     [(''undefined0_1'', ''In the beginning'', ''eng'')] \<and>
   process_tags sample_ext True ''eng'' (begin_file module_init)
      [\<lparr>t_key = ''v'', t_number = ''1'', t_text = []\<rparr>, \<lparr>t_key = ''p'', t_number = [], t_text = []\<rparr>] =
     Done (state_of (process_tags sample_ext True ''eng'' (begin_file module_init)
      [\<lparr>t_key = ''v'', t_number = ''1'', t_text = []\<rparr>, \<lparr>t_key = ''p'', t_number = [], t_text = []\<rparr>])) \<and>
   indexData (state_of (dispatch sample_ext True ''eng''
      (state_of (process_tags sample_ext True ''eng'' (begin_file module_init)
         [\<lparr>t_key = ''v'', t_number = ''1'', t_text = []\<rparr>, \<lparr>t_key = ''p'', t_number = [], t_text = []\<rparr>]))
      \<lparr>t_key = ''v'', t_number = ''2'', t_text = ''Now the earth''\<rparr>)) = []"
proof -
  let ?r1 = "\<lparr>t_key = ''v'', t_number = ''1'', t_text = []\<rparr>"
  let ?p = "\<lparr>t_key = ''p'', t_number = [], t_text = []\<rparr>"
  let ?r2 = "\<lparr>t_key = ''v'', t_number = ''2'', t_text = ''Now the earth''\<rparr>"
  let ?s1 = "state_of (process_tags sample_ext True ''eng'' (begin_file module_init) [?r1, ?p])"
  have a: "indexData (state_of (process_tags sample_ext True ''eng'' (begin_file module_init)
      [\<lparr>t_key = ''v'', t_number = ''1'', t_text = ''In the beginning''\<rparr>,
       \<lparr>t_key = ''v'', t_number = ''2'', t_text = []\<rparr>])) =
     [(''undefined0_1'', ''In the beginning'', ''eng'')]"
    by code_simp
  have d: "process_tags sample_ext True ''eng'' (begin_file module_init) [?r1, ?p] = Done ?s1"
    by code_simp
  have i: "indexData ?s1 = []" by code_simp
  have h: "t_key ?r1 = ''v'' \<and> t_text ?r1 = [] \<and> (\<forall>r' \<in> set [?p]. t_key r' \<noteq> ''v'') \<and>
      t_key ?r2 = ''v''"
    by simp
  from verse_marker_indexes_previous_verse
    [of ?r2 sample_ext True "''eng''" "begin_file module_init" ?r1 "[?p]" ?r2 ?s1] h d
  have "indexData (state_of (dispatch sample_ext True ''eng'' ?s1 ?r2)) = indexData ?s1"
    by blast
  with a d i show ?thesis by simp
qed

subsection \<open>The four flags and the pieces emitted\<close>


lemma open_unclosed_Nil [simp]: "\<not> open_unclosed k []"
  by (simp add: open_unclosed_def)




lemma drop_length_append2 [simp]: "drop (length (a @ b)) (a @ b @ c) = c"
  by (metis append.assoc append_eq_conv_conj)

lemma prefix_append2 [simp]: "prefix (a @ b) (a @ b @ c)"
  by (metis append.assoc prefixI)






























subsection \<open>The clean-up at the end of a file\<close>



lemma no_note_close_simps [simp]:
  "no_note_close []"
  "no_note_close (Plain t # frs) = no_note_close frs"
  "no_note_close (Opening k t # frs) = no_note_close frs"
  "no_note_close (Closing k t # frs) = (k \<noteq> FootnoteBlock \<and> no_note_close frs)"
  "no_note_close (a @ b) = (no_note_close a \<and> no_note_close b)"
  by (auto simp: no_note_close_def)









subsection \<open>Chapter tags and chapter records\<close>







lemma untagged_line_frame [simp]:
  "chapterData (untagged_line s l) = chapterData s"
  "chapterCodes (untagged_line s l) = chapterCodes s"
  "ch_id (currentChapter (untagged_line s l)) = ch_id (currentChapter s)"
  by (simp_all add: untagged_line_def add_html_def)


lemma begin_file_frame [simp]:
  "chapterData (begin_file s) = chapterData s"
  "chapterCodes (begin_file s) = chapterCodes s"
  by (simp_all add: begin_file_def)

















end
